theory Spec2Isabelle
  imports Main
begin

unbundle bit_operations_syntax

section \<open>Strings and bytes\<close>

text \<open>
  A Python \<open>str\<close> is a sequence of code points; it is modelled as a list of natural
  numbers.  String literals of the source are written as HOL strings and converted
  with \<open>u\<close>.  Bytes are natural numbers below 256.
\<close>

type_synonym pystr = "nat list"
type_synonym byte = nat

definition u :: "string \<Rightarrow> pystr" where
  "u s = map of_char s"

datatype py_error =
    TypeError
  | UnicodeEncodeError
  | OverflowError
  | IntegrityError
  | OperationalError
  | RecursionLimit

text \<open>
  \<open>str.encode('utf-8')\<close>: one to four bytes per code point; a surrogate code point
  (U+D800 .. U+DFFF) cannot be encoded and raises \<open>UnicodeEncodeError\<close>.  Numbers
  from 0x110000 on are not code points of any Python string.
\<close>

definition utf8_char :: "nat \<Rightarrow> byte list option" where
  "utf8_char c =
     (if c < 128 then Some [c]
      else if c < 2048 then Some [192 + c div 64, 128 + c mod 64]
      else if 55296 \<le> c \<and> c < 57344 then None
      else if c < 65536 then Some [224 + c div 4096, 128 + (c div 64) mod 64, 128 + c mod 64]
      else if c < 1114112 then
        Some [240 + c div 262144, 128 + (c div 4096) mod 64, 128 + (c div 64) mod 64, 128 + c mod 64]
      else None)"

fun encode_utf8 :: "pystr \<Rightarrow> py_error + byte list" where
  "encode_utf8 [] = Inr []"
| "encode_utf8 (c # cs) =
     (case utf8_char c of
        None \<Rightarrow> Inl UnicodeEncodeError
      | Some bs \<Rightarrow> (case encode_utf8 cs of Inl e \<Rightarrow> Inl e | Inr rest \<Rightarrow> Inr (bs @ rest)))"

section \<open>SHA-256 (\<open>hashlib.sha256\<close>)\<close>

text \<open>
  A 32-bit word is the list of its bits, least significant bit first.  Addition is
  ripple-carry addition that drops the last carry, so it wraps around at \<open>2 ^ 32\<close>.
\<close>

type_synonym u32 = "bool list"

fun bits_of :: "nat \<Rightarrow> nat \<Rightarrow> bool list" where
  "bits_of 0 n = []"
| "bits_of (Suc w) n = odd n # bits_of w (n div 2)"

definition word_bits :: "nat \<Rightarrow> u32" where
  "word_bits n = bits_of 32 n"

definition byte_bits :: "byte \<Rightarrow> bool list" where
  "byte_bits n = bits_of 8 n"

fun bxor3 :: "bool \<Rightarrow> bool \<Rightarrow> bool \<Rightarrow> bool" where
  "bxor3 False False c = c"
| "bxor3 True True c = c"
| "bxor3 False True c = (\<not> c)"
| "bxor3 True False c = (\<not> c)"

fun bmaj :: "bool \<Rightarrow> bool \<Rightarrow> bool \<Rightarrow> bool" where
  "bmaj False False c = False"
| "bmaj True True c = True"
| "bmaj False True c = c"
| "bmaj True False c = c"

fun xor3 :: "u32 \<Rightarrow> u32 \<Rightarrow> u32 \<Rightarrow> u32" where
  "xor3 (a # as) (b # bs) (c # cs) = bxor3 a b c # xor3 as bs cs"
| "xor3 _ _ _ = []"

fun Ch :: "u32 \<Rightarrow> u32 \<Rightarrow> u32 \<Rightarrow> u32" where
  "Ch (x # xs) (y # ys) (z # zs) = (if x then y else z) # Ch xs ys zs"
| "Ch _ _ _ = []"

fun Maj :: "u32 \<Rightarrow> u32 \<Rightarrow> u32 \<Rightarrow> u32" where
  "Maj (x # xs) (y # ys) (z # zs) = bmaj x y z # Maj xs ys zs"
| "Maj _ _ _ = []"

fun add_carry :: "bool \<Rightarrow> u32 \<Rightarrow> u32 \<Rightarrow> u32" where
  "add_carry c (x # xs) (y # ys) = bxor3 x y c # add_carry (bmaj x y c) xs ys"
| "add_carry c _ _ = []"

definition add32 :: "u32 \<Rightarrow> u32 \<Rightarrow> u32" where
  "add32 x y = add_carry False x y"

definition rotr :: "nat \<Rightarrow> u32 \<Rightarrow> u32" where
  "rotr n x = drop n x @ take n x"

definition shr :: "nat \<Rightarrow> u32 \<Rightarrow> u32" where
  "shr n x = drop n x @ replicate n False"

definition bsig0 :: "u32 \<Rightarrow> u32" where
  "bsig0 x = xor3 (rotr 2 x) (rotr 13 x) (rotr 22 x)"

definition bsig1 :: "u32 \<Rightarrow> u32" where
  "bsig1 x = xor3 (rotr 6 x) (rotr 11 x) (rotr 25 x)"

definition ssig0 :: "u32 \<Rightarrow> u32" where
  "ssig0 x = xor3 (rotr 7 x) (rotr 18 x) (shr 3 x)"

definition ssig1 :: "u32 \<Rightarrow> u32" where
  "ssig1 x = xor3 (rotr 17 x) (rotr 19 x) (shr 10 x)"

definition K256 :: "u32 list" where
  "K256 = map word_bits
     [1116352408, 1899447441, 3049323471, 3921009573, 961987163, 1508970993,
      2453635748, 2870763221, 3624381080, 310598401, 607225278, 1426881987,
      1925078388, 2162078206, 2614888103, 3248222580, 3835390401, 4022224774,
      264347078, 604807628, 770255983, 1249150122, 1555081692, 1996064986,
      2554220882, 2821834349, 2952996808, 3210313671, 3336571891, 3584528711,
      113926993, 338241895, 666307205, 773529912, 1294757372, 1396182291,
      1695183700, 1986661051, 2177026350, 2456956037, 2730485921, 2820302411,
      3259730800, 3345764771, 3516065817, 3600352804, 4094571909, 275423344,
      430227734, 506948616, 659060556, 883997877, 958139571, 1322822218,
      1537002063, 1747873779, 1955562222, 2024104815, 2227730452, 2361852424,
      2428436474, 2756734187, 3204031479, 3329325298]"

definition H256 :: "u32 list" where
  "H256 = map word_bits
     [1779033703, 3144134277, 1013904242, 2773480762,
      1359893119, 2600822924, 528734635, 1541459225]"

text \<open>The message schedule is kept as a sliding window of sixteen words.\<close>

fun next_w :: "u32 list \<Rightarrow> u32" where
  "next_w (w0 # w1 # w2 # w3 # w4 # w5 # w6 # w7 # w8 # w9 # w10 # w11 # w12 # w13 # w14 # ws) =
     add32 (add32 (add32 (ssig1 w14) w9) (ssig0 w1)) w0"
| "next_w ws = []"

fun sha_t1 :: "u32 list \<Rightarrow> u32 \<Rightarrow> u32 \<Rightarrow> u32" where
  "sha_t1 [a, b, c, d, e, f, g, h] k w =
     add32 (add32 (add32 (add32 h (bsig1 e)) (Ch e f g)) k) w"
| "sha_t1 s k w = []"

fun sha_t2 :: "u32 list \<Rightarrow> u32" where
  "sha_t2 (a # b # c # s) = add32 (bsig0 a) (Maj a b c)"
| "sha_t2 s = []"

fun sha_round :: "u32 list \<Rightarrow> u32 \<Rightarrow> u32 \<Rightarrow> u32 list" where
  "sha_round [a, b, c, d, e, f, g, h] t1 t2 = [add32 t1 t2, a, b, c, add32 d t1, e, f, g]"
| "sha_round s t1 t2 = s"

fun sha_rounds :: "u32 list \<Rightarrow> u32 list \<Rightarrow> u32 list \<Rightarrow> u32 list" where
  "sha_rounds [] ws s = s"
| "sha_rounds (k # ks) ws s =
     sha_rounds ks (tl ws @ [next_w ws]) (sha_round s (sha_t1 s k (hd ws)) (sha_t2 s))"

fun add_all :: "u32 list \<Rightarrow> u32 list \<Rightarrow> u32 list" where
  "add_all (x # xs) (y # ys) = add32 x y # add_all xs ys"
| "add_all _ _ = []"

text \<open>Four bytes, most significant first, make one word.\<close>

fun be32 :: "byte list \<Rightarrow> u32 list" where
  "be32 (a # b # c # d # rest) =
     (byte_bits d @ byte_bits c @ byte_bits b @ byte_bits a) # be32 rest"
| "be32 _ = []"

definition compress :: "u32 list \<Rightarrow> byte list \<Rightarrow> u32 list" where
  "compress s block = add_all s (sha_rounds K256 (be32 block) s)"

function sha_blocks :: "u32 list \<Rightarrow> byte list \<Rightarrow> u32 list" where
  "sha_blocks s bs = (if bs = [] then s else sha_blocks (compress s (take 64 bs)) (drop 64 bs))"
  by pat_completeness auto
termination
  by (relation "measure (\<lambda>(s, bs). length bs)") auto

declare sha_blocks.simps [simp del]

definition be64 :: "nat \<Rightarrow> byte list" where
  "be64 n = map (\<lambda>i. (n div 256 ^ i) mod 256) [7, 6, 5, 4, 3, 2, 1, 0]"

definition pad :: "byte list \<Rightarrow> byte list" where
  "pad m = m @ [128] @ replicate ((119 - length m mod 64) mod 64) 0 @ be64 (8 * length m)"

definition hexdigit :: "nat \<Rightarrow> char" where
  "hexdigit n = ''0123456789abcdef'' ! (n mod 16)"

fun nibble_value :: "bool \<Rightarrow> bool \<Rightarrow> bool \<Rightarrow> bool \<Rightarrow> nat" where
  "nibble_value b3 b2 b1 b0 =
     (if b3 then 8 else 0) + (if b2 then 4 else 0) + (if b1 then 2 else 0) + (if b0 then 1 else 0)"

fun hex_of_bits :: "bool list \<Rightarrow> string" where
  "hex_of_bits (b0 # b1 # b2 # b3 # rest) = hex_of_bits rest @ [hexdigit (nibble_value b3 b2 b1 b0)]"
| "hex_of_bits _ = []"

definition hex32 :: "u32 \<Rightarrow> string" where
  "hex32 w = hex_of_bits w"

definition sha256_hexdigest :: "byte list \<Rightarrow> string" where
  "sha256_hexdigest m = concat (map hex32 (sha_blocks H256 (pad m)))"

section \<open>The chain hasher\<close>

text \<open>
  \<open>str(n)\<close> for a Python integer, and the f-string rendering of \<open>actor_id or ''\<close>:
  \<open>None\<close> and \<open>0\<close> are both falsy, so both render as the empty string.
\<close>

function digits10 :: "nat \<Rightarrow> string" where
  "digits10 n = (if n < 10 then [hexdigit n] else digits10 (n div 10) @ [hexdigit (n mod 10)])"
  by pat_completeness auto
termination
  by (relation "measure (\<lambda>n. n)") auto

declare digits10.simps [simp del]

definition str_nat :: "nat \<Rightarrow> pystr" where
  "str_nat n = u (digits10 n)"

definition str_int :: "int \<Rightarrow> pystr" where
  "str_int i = (if i < 0 then u ''-'' @ str_nat (nat (- i)) else str_nat (nat i))"

fun actor_or_empty :: "int option \<Rightarrow> pystr" where
  "actor_or_empty None = []"
| "actor_or_empty (Some a) = (if a = 0 then [] else str_int a)"

definition sha256_hex_of_str :: "pystr \<Rightarrow> py_error + pystr" where
  "sha256_hex_of_str payload =
     (case encode_utf8 payload of
        Inl e \<Rightarrow> Inl e
      | Inr bytes \<Rightarrow> Inr (u (sha256_hexdigest bytes)))"

definition create_data_hash ::
  "pystr \<Rightarrow> pystr \<Rightarrow> int option \<Rightarrow> pystr \<Rightarrow> py_error + pystr" where
  "create_data_hash timestamp prev_hash actor_id data_text =
     sha256_hex_of_str
       (timestamp @ u ''|'' @ prev_hash @ u ''|'' @ actor_or_empty actor_id @ u ''|'' @ data_text)"

section \<open>The canonical encoder (\<open>json.dumps\<close>)\<close>

text \<open>
  The values a caller can pass as payload.  A finite float is given by the parts of its
  \<open>repr\<close>: sign, integer part, fractional digits and exponent.  \<open>PObject\<close> stands for
  any value the JSON encoder has no rule for (a set, a datetime, a Decimal, bytes).
  Dictionaries have string keys, as the annotation \<open>Dict[str, Any]\<close> says.
\<close>

datatype pyfloat = FNan | FPosInf | FNegInf | FFinite bool nat "nat list" "int option"

datatype pyval =
    PNone
  | PBool bool
  | PInt int
  | PFloat pyfloat
  | PStr pystr
  | PList "pyval list"
  | PDict "(pystr \<times> pyval) list"
  | PObject

definition hex4 :: "nat \<Rightarrow> pystr" where
  "hex4 n = u [hexdigit (n div 4096), hexdigit (n div 256), hexdigit (n div 16), hexdigit n]"

definition escape_char :: "nat \<Rightarrow> pystr" where
  "escape_char c =
     (if c = 34 then [92, 34]
      else if c = 92 then [92, 92]
      else if c = 10 then [92, 110]
      else if c = 13 then [92, 114]
      else if c = 9 then [92, 116]
      else if c = 8 then [92, 98]
      else if c = 12 then [92, 102]
      else if 32 \<le> c \<and> c \<le> 126 then [c]
      else if c < 65536 then [92, 117] @ hex4 c
      else [92, 117] @ hex4 (55296 + ((c - 65536) div 1024) mod 1024)
         @ [92, 117] @ hex4 (56320 + (c - 65536) mod 1024))"

definition encode_basestring_ascii :: "pystr \<Rightarrow> pystr" where
  "encode_basestring_ascii s = [34] @ concat (map escape_char s) @ [34]"

definition exponent_text :: "int \<Rightarrow> pystr" where
  "exponent_text e =
     u ''e'' @ (if e < 0 then u ''-'' else u ''+'')
       @ (if \<bar>e\<bar> < 10 then u ''0'' else []) @ str_nat (nat \<bar>e\<bar>)"

fun float_repr :: "pyfloat \<Rightarrow> pystr" where
  "float_repr FNan = u ''NaN''"
| "float_repr FPosInf = u ''Infinity''"
| "float_repr FNegInf = u ''-Infinity''"
| "float_repr (FFinite neg ip frac ex) =
     (if neg then u ''-'' else []) @ str_nat ip
       @ (if frac = [] then [] else u ''.'' @ u (map hexdigit (map (\<lambda>d. d mod 10) frac)))
       @ (case ex of None \<Rightarrow> [] | Some e \<Rightarrow> exponent_text e)"

fun join :: "pystr \<Rightarrow> pystr list \<Rightarrow> pystr" where
  "join sep [] = []"
| "join sep [x] = x"
| "join sep (x # y # ys) = x @ sep @ join sep (y # ys)"

text \<open>Python compares strings code point by code point; a proper prefix is smaller.\<close>

fun str_less :: "pystr \<Rightarrow> pystr \<Rightarrow> bool" where
  "str_less [] [] = False"
| "str_less [] (y # ys) = True"
| "str_less (x # xs) [] = False"
| "str_less (x # xs) (y # ys) = (x < y \<or> (x = y \<and> str_less xs ys))"

fun insert_item :: "pystr \<times> 'a \<Rightarrow> (pystr \<times> 'a) list \<Rightarrow> (pystr \<times> 'a) list" where
  "insert_item kv [] = [kv]"
| "insert_item kv (x # xs) =
     (if str_less (fst kv) (fst x) then kv # x # xs else x # insert_item kv xs)"

fun sort_items :: "(pystr \<times> 'a) list \<Rightarrow> (pystr \<times> 'a) list" where
  "sort_items [] = []"
| "sort_items (x # xs) = insert_item x (sort_items xs)"

text \<open>
  \<open>json.dumps(obj, sort_keys=True, separators=(',', ':'))\<close> with the defaults
  \<open>ensure_ascii=True\<close> and \<open>allow_nan=True\<close>.  Every value of a dictionary is
  encoded, then the items are written in the order of their keys.
\<close>

fun json_dumps :: "pyval \<Rightarrow> py_error + pystr"
  and dumps_list :: "pyval list \<Rightarrow> py_error + pystr list"
  and dumps_items :: "(pystr \<times> pyval) list \<Rightarrow> py_error + (pystr \<times> pystr) list" where
  "json_dumps PNone = Inr (u ''null'')"
| "json_dumps (PBool b) = Inr (if b then u ''true'' else u ''false'')"
| "json_dumps (PInt i) = Inr (str_int i)"
| "json_dumps (PFloat f) = Inr (float_repr f)"
| "json_dumps (PStr s) = Inr (encode_basestring_ascii s)"
| "json_dumps (PList vs) =
     (case dumps_list vs of
        Inl e \<Rightarrow> Inl e
      | Inr ts \<Rightarrow> Inr (u ''['' @ join (u '','') ts @ u '']''))"
| "json_dumps (PDict kvs) =
     (case dumps_items kvs of
        Inl e \<Rightarrow> Inl e
      | Inr ts \<Rightarrow>
          Inr (u ''{'' @ join (u '','')
                 (map (\<lambda>(k, t). encode_basestring_ascii k @ u '':'' @ t) (sort_items ts))
               @ u ''}''))"
| "json_dumps PObject = Inl TypeError"
| "dumps_list [] = Inr []"
| "dumps_list (v # vs) =
     (case json_dumps v of
        Inl e \<Rightarrow> Inl e
      | Inr t \<Rightarrow> (case dumps_list vs of Inl e \<Rightarrow> Inl e | Inr ts \<Rightarrow> Inr (t # ts)))"
| "dumps_items [] = Inr []"
| "dumps_items ((k, v) # kvs) =
     (case json_dumps v of
        Inl e \<Rightarrow> Inl e
      | Inr t \<Rightarrow> (case dumps_items kvs of Inl e \<Rightarrow> Inl e | Inr ts \<Rightarrow> Inr ((k, t) # ts)))"

section \<open>The ledger table and the session\<close>

record ledger =
  ledger_id :: int
  timestamp :: pystr
  prev_hash :: pystr
  data_hash :: pystr
  actor_id :: "int option"
  action_type :: pystr
  data_text :: pystr

text \<open>
  The stored table is the list of its rows.  A session holds the committed rows and the
  rows added but not yet committed; closing a session drops what is pending.
\<close>

record session =
  committed :: "ledger list"
  pending :: "ledger list"

definition get_session :: "ledger list \<Rightarrow> session" where
  "get_session table = \<lparr>committed = table, pending = []\<rparr>"

definition session_add :: "ledger \<Rightarrow> session \<Rightarrow> session" where
  "session_add row s = s\<lparr>pending := pending s @ [row]\<rparr>"

definition session_rollback :: "session \<Rightarrow> session" where
  "session_rollback s = s\<lparr>pending := []\<rparr>"

definition session_close :: "session \<Rightarrow> ledger list" where
  "session_close s = committed s"

text \<open>
  The primary key of a new row is one more than the largest key in the table, and 1 in
  an empty table.  The column \<open>data_hash\<close> is declared unique: inserting a row whose
  digest is already stored violates the constraint.
\<close>

definition next_id :: "ledger list \<Rightarrow> int" where
  "next_id rows = (case rows of [] \<Rightarrow> 1 | r # rs \<Rightarrow> foldl max (ledger_id r) (map ledger_id rs) + 1)"

text \<open>
  Binding the parameters of the \<open>INSERT\<close> statement, in the order of the columns: a text
  that cannot be encoded as UTF-8 raises \<open>UnicodeEncodeError\<close>, an integer outside the
  signed 64-bit range raises \<open>OverflowError\<close>.
\<close>

definition bind_text :: "pystr \<Rightarrow> py_error option" where
  "bind_text t = (case encode_utf8 t of Inl e \<Rightarrow> Some e | Inr bytes \<Rightarrow> None)"

definition bind_int :: "int option \<Rightarrow> py_error option" where
  "bind_int a =
     (case a of
        None \<Rightarrow> None
      | Some i \<Rightarrow>
          if - 9223372036854775808 \<le> i \<and> i \<le> 9223372036854775807 then None
          else Some OverflowError)"

fun first_error :: "py_error option list \<Rightarrow> py_error option" where
  "first_error [] = None"
| "first_error (None # rest) = first_error rest"
| "first_error (Some e # rest) = Some e"

definition bind_row :: "ledger \<Rightarrow> py_error option" where
  "bind_row p =
     first_error [bind_text (timestamp p), bind_text (prev_hash p), bind_text (data_hash p),
                  bind_int (actor_id p), bind_text (action_type p), bind_text (data_text p)]"

fun flush :: "ledger list \<Rightarrow> ledger list \<Rightarrow> py_error + ledger list" where
  "flush rows [] = Inr rows"
| "flush rows (p # ps) =
     (case bind_row p of
        Some e \<Rightarrow> Inl e
      | None \<Rightarrow>
          if data_hash p \<in> set (map data_hash rows) then Inl IntegrityError
          else flush (rows @ [p\<lparr>ledger_id := next_id rows\<rparr>]) ps)"

definition session_commit :: "bool \<Rightarrow> session \<Rightarrow> py_error + session" where
  "session_commit storage_ok s =
     (if \<not> storage_ok then Inl OperationalError
      else case flush (committed s) (pending s) of
             Inl e \<Rightarrow> Inl e
           | Inr rows \<Rightarrow> Inr \<lparr>committed = rows, pending = []\<rparr>)"

text \<open>\<open>query(Ledger).order_by(Ledger.id.asc())\<close> and its descending counterpart.\<close>

definition order_by_id_asc :: "ledger list \<Rightarrow> ledger list" where
  "order_by_id_asc rows = sort_key ledger_id rows"

definition order_by_id_desc :: "ledger list \<Rightarrow> ledger list" where
  "order_by_id_desc rows = rev (sort_key ledger_id rows)"

section \<open>The clock\<close>

record datetime =
  year :: nat
  month :: nat
  day :: nat
  hour :: nat
  minute :: nat
  second :: nat
  microsecond :: nat

definition zero_pad :: "nat \<Rightarrow> nat \<Rightarrow> pystr" where
  "zero_pad w n = replicate (w - length (str_nat n)) 48 @ str_nat n"

definition isoformat :: "datetime \<Rightarrow> pystr" where
  "isoformat d =
     zero_pad 4 (year d) @ u ''-'' @ zero_pad 2 (month d) @ u ''-'' @ zero_pad 2 (day d)
       @ u ''T'' @ zero_pad 2 (hour d) @ u '':'' @ zero_pad 2 (minute d)
       @ u '':'' @ zero_pad 2 (second d)
       @ (if microsecond d = 0 then [] else u ''.'' @ zero_pad 6 (microsecond d))"

text \<open>
  What a call reads from outside: the clock, and whether the store answers the read of
  the last entry and accepts the commit.
\<close>

record env =
  utcnow :: datetime
  read_ok :: bool
  commit_ok :: bool

section \<open>The append engine\<close>

definition genesis :: pystr where
  "genesis = replicate 64 48"

definition get_last_hash :: "bool \<Rightarrow> ledger list \<Rightarrow> py_error + pystr" where
  "get_last_hash storage_ok table =
     (if \<not> storage_ok then Inl OperationalError
      else case order_by_id_desc table of
             [] \<Rightarrow> Inr genesis
           | last_entry # _ \<Rightarrow> Inr (data_hash last_entry))"

definition ledger_data :: "pystr \<Rightarrow> pyval \<Rightarrow> pystr \<Rightarrow> pystr \<Rightarrow> pyval" where
  "ledger_data action data_dict human_message ts =
     PDict [(u ''action_type'', PStr action),
            (u ''payload'', data_dict),
            (u ''human_message'', PStr human_message),
            (u ''timestamp'', PStr ts)]"

text \<open>
  The body of the \<open>try\<close> block: it returns the digest and the session after the commit,
  or the exception together with the session at the point where it was raised.
\<close>

definition append_body ::
  "env \<Rightarrow> int option \<Rightarrow> pystr \<Rightarrow> pyval \<Rightarrow> pystr \<Rightarrow> ledger list \<Rightarrow> session
     \<Rightarrow> (py_error \<times> session) + (pystr \<times> session)" where
  "append_body e actor action data_dict human_message table s =
     (case get_last_hash (read_ok e) table of
        Inl err \<Rightarrow> Inl (err, s)
      | Inr prev \<Rightarrow>
          let ts = isoformat (utcnow e) @ u ''Z'' in
          (case json_dumps (ledger_data action data_dict human_message ts) of
             Inl err \<Rightarrow> Inl (err, s)
           | Inr text \<Rightarrow>
               (case create_data_hash ts prev actor text of
                  Inl err \<Rightarrow> Inl (err, s)
                | Inr h \<Rightarrow>
                    let ledger_entry = \<lparr>ledger_id = 0, timestamp = ts, prev_hash = prev,
                                         data_hash = h, actor_id = actor, action_type = action,
                                         data_text = text\<rparr>;
                        s1 = session_add ledger_entry s
                    in (case session_commit (commit_ok e) s1 of
                          Inl err \<Rightarrow> Inl (err, s1)
                        | Inr s2 \<Rightarrow> Inr (h, s2)))))"

text \<open>
  \<open>add_ledger_entry\<close> returns what the caller sees (the digest, or the exception that
  is raised again after the rollback) and the table as it is stored afterwards.
\<close>

definition add_ledger_entry ::
  "env \<Rightarrow> int option \<Rightarrow> pystr \<Rightarrow> pyval \<Rightarrow> pystr \<Rightarrow> ledger list
     \<Rightarrow> (py_error + pystr) \<times> ledger list" where
  "add_ledger_entry e actor action data_dict human_message table =
     (case append_body e actor action data_dict human_message table (get_session table) of
        Inl (err, s) \<Rightarrow> (Inl err, session_close (session_rollback s))
      | Inr (h, s) \<Rightarrow> (Inr h, session_close s))"

section \<open>The JSON decoder (\<open>json.loads\<close>)\<close>

datatype jval =
    JNull
  | JBool bool
  | JNum pystr
  | JStr pystr
  | JArr "jval list"
  | JObj "(pystr \<times> jval) list"

datatype 'a parse = Parsed 'a pystr | ParseError | OutOfFuel

definition is_ws :: "nat \<Rightarrow> bool" where
  "is_ws c = (c = 32 \<or> c = 9 \<or> c = 10 \<or> c = 13)"

definition skip_ws :: "pystr \<Rightarrow> pystr" where
  "skip_ws s = dropWhile is_ws s"

definition is_digit :: "nat \<Rightarrow> bool" where
  "is_digit c = (48 \<le> c \<and> c \<le> 57)"

definition hexval :: "nat \<Rightarrow> nat option" where
  "hexval c =
     (if 48 \<le> c \<and> c \<le> 57 then Some (c - 48)
      else if 97 \<le> c \<and> c \<le> 102 then Some (c - 87)
      else if 65 \<le> c \<and> c \<le> 70 then Some (c - 55)
      else None)"

definition hexval4 :: "nat \<Rightarrow> nat \<Rightarrow> nat \<Rightarrow> nat \<Rightarrow> nat option" where
  "hexval4 a b c d =
     (case (hexval a, hexval b, hexval c, hexval d) of
        (Some x, Some y, Some z, Some w) \<Rightarrow> Some (((x * 16 + y) * 16 + z) * 16 + w)
      | _ \<Rightarrow> None)"

definition backslash :: "nat \<Rightarrow> nat option" where
  "backslash e =
     (if e = 34 then Some 34
      else if e = 92 then Some 92
      else if e = 47 then Some 47
      else if e = 98 then Some 8
      else if e = 102 then Some 12
      else if e = 110 then Some 10
      else if e = 114 then Some 13
      else if e = 116 then Some 9
      else None)"

definition push_char :: "nat \<Rightarrow> (pystr \<times> pystr) option \<Rightarrow> (pystr \<times> pystr) option" where
  "push_char c r = (case r of None \<Rightarrow> None | Some (s, rest) \<Rightarrow> Some (c # s, rest))"

text \<open>
  The text after an opening quotation mark: the decoded string and what follows the
  closing quotation mark.  Control characters are refused; a high surrogate escape
  followed by a low surrogate escape is one code point.
\<close>

fun scanstring :: "pystr \<Rightarrow> (pystr \<times> pystr) option"
  and scan_escape :: "pystr \<Rightarrow> (pystr \<times> pystr) option"
  and scan_low :: "nat \<Rightarrow> pystr \<Rightarrow> (pystr \<times> pystr) option" where
  "scanstring [] = None"
| "scanstring (c # cs) =
     (if c = 34 then Some ([], cs)
      else if c = 92 then scan_escape cs
      else if c < 32 then None
      else push_char c (scanstring cs))"
| "scan_escape (e # a # b # c # d # cs) =
     (if e = 117 then
        (case hexval4 a b c d of
           None \<Rightarrow> None
         | Some n \<Rightarrow> if 55296 \<le> n \<and> n < 56320 then scan_low n cs else push_char n (scanstring cs))
      else (case backslash e of
              None \<Rightarrow> None
            | Some ch \<Rightarrow> push_char ch (scanstring (a # b # c # d # cs))))"
| "scan_escape (e # cs) =
     (case backslash e of None \<Rightarrow> None | Some ch \<Rightarrow> push_char ch (scanstring cs))"
| "scan_escape [] = None"
| "scan_low n (x # y # a # b # c # d # cs) =
     (if x = 92 \<and> y = 117 then
        (case hexval4 a b c d of
           None \<Rightarrow> None
         | Some m \<Rightarrow>
             if 56320 \<le> m \<and> m < 57344
             then push_char (65536 + (n - 55296) * 1024 + (m - 56320)) (scanstring cs)
             else push_char n (scanstring (x # y # a # b # c # d # cs)))
      else push_char n (scanstring (x # y # a # b # c # d # cs)))"
| "scan_low n cs = push_char n (scanstring cs)"

text \<open>
  The number pattern \<open>-?(0|[1-9][0-9]*)(\.[0-9]+)?([eE][-+]?[0-9]+)?\<close>: the matched
  text and the rest, or \<open>None\<close> when nothing matches.
\<close>

definition scan_int :: "pystr \<Rightarrow> (pystr \<times> pystr) option" where
  "scan_int s =
     (case s of
        [] \<Rightarrow> None
      | c # cs \<Rightarrow>
          if c = 48 then Some ([48], cs)
          else if is_digit c then Some (takeWhile is_digit s, dropWhile is_digit s)
          else None)"

definition scan_frac :: "pystr \<Rightarrow> pystr \<times> pystr" where
  "scan_frac s =
     (case s of
        c # d # cs \<Rightarrow>
          if c = 46 \<and> is_digit d
          then (c # takeWhile is_digit (d # cs), dropWhile is_digit (d # cs))
          else ([], s)
      | _ \<Rightarrow> ([], s))"

definition scan_digits1 :: "pystr \<Rightarrow> (pystr \<times> pystr) option" where
  "scan_digits1 s =
     (case s of
        [] \<Rightarrow> None
      | d # cs \<Rightarrow> if is_digit d then Some (takeWhile is_digit s, dropWhile is_digit s) else None)"

definition scan_exp :: "pystr \<Rightarrow> pystr \<times> pystr" where
  "scan_exp s =
     (case s of
        [] \<Rightarrow> ([], s)
      | c # cs \<Rightarrow>
          if c = 101 \<or> c = 69 then
            (case cs of
               [] \<Rightarrow> ([], s)
             | g # ds \<Rightarrow>
                 if g = 43 \<or> g = 45 then
                   (case scan_digits1 ds of None \<Rightarrow> ([], s) | Some (t, r) \<Rightarrow> (c # g # t, r))
                 else
                   (case scan_digits1 cs of None \<Rightarrow> ([], s) | Some (t, r) \<Rightarrow> (c # t, r)))
          else ([], s))"

definition scan_number :: "pystr \<Rightarrow> (pystr \<times> pystr) option" where
  "scan_number s =
     (let (sign, s1) = (case s of [] \<Rightarrow> ([], s) | c # cs \<Rightarrow> if c = 45 then ([45], cs) else ([], s))
      in case scan_int s1 of
           None \<Rightarrow> None
         | Some (ip, s2) \<Rightarrow>
             (case scan_frac s2 of
                (fr, s3) \<Rightarrow> (case scan_exp s3 of (ex, s4) \<Rightarrow> Some (sign @ ip @ fr @ ex, s4))))"

definition starts_with :: "pystr \<Rightarrow> pystr \<Rightarrow> bool" where
  "starts_with p s = (take (length p) s = p)"

text \<open>
  \<open>scan_once\<close> and the object and array parsers.  The first argument bounds the number
  of nested calls; \<open>json_loads\<close> passes a bound that the length of the text justifies.
\<close>

fun scan_once :: "nat \<Rightarrow> pystr \<Rightarrow> jval parse"
  and parse_array :: "nat \<Rightarrow> pystr \<Rightarrow> jval list parse"
  and parse_object :: "nat \<Rightarrow> pystr \<Rightarrow> (pystr \<times> jval) list parse" where
  "scan_once 0 s = OutOfFuel"
| "scan_once (Suc n) [] = ParseError"
| "scan_once (Suc n) (c # cs) =
     (if c = 34 then
        (case scanstring cs of None \<Rightarrow> ParseError | Some (str, r) \<Rightarrow> Parsed (JStr str) r)
      else if c = 123 then
        (case skip_ws cs of
           [] \<Rightarrow> ParseError
         | d # r \<Rightarrow>
             if d = 125 then Parsed (JObj []) r
             else (case parse_object n (d # r) of
                     Parsed kvs r' \<Rightarrow> Parsed (JObj kvs) r'
                   | ParseError \<Rightarrow> ParseError
                   | OutOfFuel \<Rightarrow> OutOfFuel))
      else if c = 91 then
        (case skip_ws cs of
           [] \<Rightarrow> ParseError
         | d # r \<Rightarrow>
             if d = 93 then Parsed (JArr []) r
             else (case parse_array n (d # r) of
                     Parsed vs r' \<Rightarrow> Parsed (JArr vs) r'
                   | ParseError \<Rightarrow> ParseError
                   | OutOfFuel \<Rightarrow> OutOfFuel))
      else if starts_with (u ''null'') (c # cs) then Parsed JNull (drop 4 (c # cs))
      else if starts_with (u ''true'') (c # cs) then Parsed (JBool True) (drop 4 (c # cs))
      else if starts_with (u ''false'') (c # cs) then Parsed (JBool False) (drop 5 (c # cs))
      else (case scan_number (c # cs) of
              Some (lit, r) \<Rightarrow> Parsed (JNum lit) r
            | None \<Rightarrow>
                if starts_with (u ''NaN'') (c # cs) then Parsed (JNum (u ''NaN'')) (drop 3 (c # cs))
                else if starts_with (u ''Infinity'') (c # cs)
                  then Parsed (JNum (u ''Infinity'')) (drop 8 (c # cs))
                else if starts_with (u ''-Infinity'') (c # cs)
                  then Parsed (JNum (u ''-Infinity'')) (drop 9 (c # cs))
                else ParseError))"
| "parse_array 0 s = OutOfFuel"
| "parse_array (Suc n) s =
     (case scan_once n s of
        ParseError \<Rightarrow> ParseError
      | OutOfFuel \<Rightarrow> OutOfFuel
      | Parsed v r \<Rightarrow>
          (case skip_ws r of
             [] \<Rightarrow> ParseError
           | d # r' \<Rightarrow>
               if d = 93 then Parsed [v] r'
               else if d = 44 then
                 (case parse_array n (skip_ws r') of
                    Parsed vs r'' \<Rightarrow> Parsed (v # vs) r''
                  | ParseError \<Rightarrow> ParseError
                  | OutOfFuel \<Rightarrow> OutOfFuel)
               else ParseError))"
| "parse_object 0 s = OutOfFuel"
| "parse_object (Suc n) [] = ParseError"
| "parse_object (Suc n) (q # cs) =
     (if q \<noteq> 34 then ParseError
      else case scanstring cs of
             None \<Rightarrow> ParseError
           | Some (k, r) \<Rightarrow>
               (case skip_ws r of
                  [] \<Rightarrow> ParseError
                | colon # r1 \<Rightarrow>
                    if colon \<noteq> 58 then ParseError
                    else (case scan_once n (skip_ws r1) of
                            ParseError \<Rightarrow> ParseError
                          | OutOfFuel \<Rightarrow> OutOfFuel
                          | Parsed v r2 \<Rightarrow>
                              (case skip_ws r2 of
                                 [] \<Rightarrow> ParseError
                               | d # r3 \<Rightarrow>
                                   if d = 125 then Parsed [(k, v)] r3
                                   else if d = 44 then
                                     (case parse_object n (skip_ws r3) of
                                        Parsed kvs r4 \<Rightarrow> Parsed ((k, v) # kvs) r4
                                      | ParseError \<Rightarrow> ParseError
                                      | OutOfFuel \<Rightarrow> OutOfFuel)
                                   else ParseError))))"

datatype loads_result = Decoded jval | JSONDecodeError | DepthExceeded

text \<open>Three more than twice the length of the text, counted in steps of one.\<close>

fun nesting_bound :: "pystr \<Rightarrow> nat" where
  "nesting_bound [] = Suc (Suc (Suc 0))"
| "nesting_bound (c # cs) = Suc (Suc (nesting_bound cs))"

definition json_loads :: "pystr \<Rightarrow> loads_result" where
  "json_loads s =
     (if starts_with [65279] s then JSONDecodeError
      else case scan_once (nesting_bound s) (skip_ws s) of
             ParseError \<Rightarrow> JSONDecodeError
           | OutOfFuel \<Rightarrow> DepthExceeded
           | Parsed v r \<Rightarrow> if skip_ws r = [] then Decoded v else JSONDecodeError)"

section \<open>The verifier\<close>

datatype discrepancy =
    PrevHashMismatch int pystr pystr
  | HashMismatch int pystr pystr
  | InvalidJsonStructure int pystr
  | InvalidJson int pystr

fun entry_id :: "discrepancy \<Rightarrow> int" where
  "entry_id (PrevHashMismatch i expected actual) = i"
| "entry_id (HashMismatch i expected actual) = i"
| "entry_id (InvalidJsonStructure i d) = i"
| "entry_id (InvalidJson i d) = i"

definition preview :: "pystr \<Rightarrow> pystr" where
  "preview t = (if length t > 100 then take 100 t @ u ''...'' else t)"

fun is_substring :: "pystr \<Rightarrow> pystr \<Rightarrow> bool" where
  "is_substring k [] = (k = [])"
| "is_substring k (c # cs) = (starts_with k (c # cs) \<or> is_substring k cs)"

text \<open>
  \<open>key in data\<close> for a decoded value: a key of a dictionary, an element of a list, a
  substring of a string; for \<open>None\<close>, a boolean or a number the operator raises
  \<open>TypeError\<close>.
\<close>

fun py_in :: "pystr \<Rightarrow> jval \<Rightarrow> py_error + bool" where
  "py_in k (JObj kvs) = Inr (k \<in> set (map fst kvs))"
| "py_in k (JArr vs) = Inr (JStr k \<in> set vs)"
| "py_in k (JStr s) = Inr (is_substring k s)"
| "py_in k JNull = Inl TypeError"
| "py_in k (JBool b) = Inl TypeError"
| "py_in k (JNum n) = Inl TypeError"

text \<open>
  The third check of the loop body: only \<open>json.JSONDecodeError\<close> is caught.
\<close>

definition check_json :: "ledger \<Rightarrow> py_error + discrepancy list" where
  "check_json entry =
     (case json_loads (data_text entry) of
        JSONDecodeError \<Rightarrow> Inr [InvalidJson (ledger_id entry) (preview (data_text entry))]
      | DepthExceeded \<Rightarrow> Inl RecursionLimit
      | Decoded data \<Rightarrow>
          (case py_in (u ''action_type'') data of
             Inl e \<Rightarrow> Inl e
           | Inr has_action \<Rightarrow>
               if \<not> has_action
               then Inr [InvalidJsonStructure (ledger_id entry) (preview (data_text entry))]
               else (case py_in (u ''payload'') data of
                       Inl e \<Rightarrow> Inl e
                     | Inr has_payload \<Rightarrow>
                         if \<not> has_payload
                         then Inr [InvalidJsonStructure (ledger_id entry)
                                     (preview (data_text entry))]
                         else Inr [])))"

definition check_entry :: "pystr \<Rightarrow> ledger \<Rightarrow> py_error + discrepancy list" where
  "check_entry expected_prev_hash entry =
     (let d1 = (if prev_hash entry \<noteq> expected_prev_hash
                then [PrevHashMismatch (ledger_id entry) expected_prev_hash (prev_hash entry)]
                else [])
      in case create_data_hash (timestamp entry) (prev_hash entry) (actor_id entry)
                (data_text entry) of
           Inl e \<Rightarrow> Inl e
         | Inr computed_hash \<Rightarrow>
             let d2 = (if data_hash entry \<noteq> computed_hash
                       then [HashMismatch (ledger_id entry) computed_hash (data_hash entry)]
                       else [])
             in (case check_json entry of
                   Inl e \<Rightarrow> Inl e
                 | Inr d3 \<Rightarrow> Inr (d1 @ d2 @ d3)))"

fun verify_loop :: "pystr \<Rightarrow> ledger list \<Rightarrow> py_error + discrepancy list" where
  "verify_loop expected_prev_hash [] = Inr []"
| "verify_loop expected_prev_hash (entry # entries) =
     (case check_entry expected_prev_hash entry of
        Inl e \<Rightarrow> Inl e
      | Inr ds \<Rightarrow>
          (case verify_loop (data_hash entry) entries of
             Inl e \<Rightarrow> Inl e
           | Inr rest \<Rightarrow> Inr (ds @ rest)))"

definition verify_ledger :: "ledger list \<Rightarrow> py_error + discrepancy list" where
  "verify_ledger table =
     (let entries = order_by_id_asc table
      in if entries = [] then Inr [] else verify_loop genesis entries)"

section \<open>The query service\<close>

text \<open>
  The filters are applied only when their argument is truthy, the action type is not
  the word \<open>All\<close> and the actor reference is positive.  A negative limit means no limit
  and a negative offset means none, as in SQLite.
\<close>

definition action_filter :: "pystr option \<Rightarrow> ledger \<Rightarrow> bool" where
  "action_filter a r =
     (case a of
        None \<Rightarrow> True
      | Some t \<Rightarrow> if t \<noteq> [] \<and> t \<noteq> u ''All'' then action_type r = t else True)"

definition actor_filter :: "int option \<Rightarrow> ledger \<Rightarrow> bool" where
  "actor_filter a r =
     (case a of
        None \<Rightarrow> True
      | Some i \<Rightarrow> if i \<noteq> 0 \<and> i > 0 then actor_id r = Some i else True)"

definition limit_rows :: "int \<Rightarrow> 'a list \<Rightarrow> 'a list" where
  "limit_rows n rows = (if n < 0 then rows else take (nat n) rows)"

definition get_ledger_entries ::
  "int \<Rightarrow> int \<Rightarrow> pystr option \<Rightarrow> int option \<Rightarrow> ledger list \<Rightarrow> ledger list \<times> ledger list" where
  "get_ledger_entries limit offset action actor table =
     (let s = get_session table;
          query = filter (actor_filter actor) (filter (action_filter action)
                    (order_by_id_desc (committed s)));
          entries = limit_rows limit (drop (nat offset) query)
      in (entries, session_close s))"

section \<open>The proof exporter\<close>

definition py_opt_str :: "pystr option \<Rightarrow> pyval" where
  "py_opt_str x = (case x of None \<Rightarrow> PNone | Some t \<Rightarrow> PStr t)"

definition py_opt_int :: "int option \<Rightarrow> pyval" where
  "py_opt_int x = (case x of None \<Rightarrow> PNone | Some i \<Rightarrow> PInt i)"

definition in_range :: "pystr option \<Rightarrow> pystr option \<Rightarrow> ledger \<Rightarrow> bool" where
  "in_range start_date end_date r =
     ((case start_date of
         None \<Rightarrow> True
       | Some lo \<Rightarrow> if lo \<noteq> [] then \<not> str_less (timestamp r) lo else True) \<and>
      (case end_date of
         None \<Rightarrow> True
       | Some hi \<Rightarrow> if hi \<noteq> [] then \<not> str_less hi (timestamp r) else True))"

definition proof_entry :: "ledger \<Rightarrow> pyval" where
  "proof_entry r =
     PDict [(u ''id'', PInt (ledger_id r)),
            (u ''timestamp'', PStr (timestamp r)),
            (u ''prev_hash'', PStr (prev_hash r)),
            (u ''data_hash'', PStr (data_hash r)),
            (u ''actor_id'', py_opt_int (actor_id r)),
            (u ''action_type'', PStr (action_type r)),
            (u ''data_text'', PStr (data_text r))]"

definition proof_items ::
  "datetime \<Rightarrow> pystr option \<Rightarrow> pystr option \<Rightarrow> ledger list \<Rightarrow> (pystr \<times> pyval) list" where
  "proof_items now start_date end_date entries =
     [(u ''export_timestamp'', PStr (isoformat now @ u ''Z'')),
      (u ''filter_start_date'', py_opt_str start_date),
      (u ''filter_end_date'', py_opt_str end_date),
      (u ''total_entries'', PInt (int (length entries))),
      (u ''entries'', PList (map proof_entry entries)),
      (u ''verification_info'',
         PDict [(u ''hash_algorithm'', PStr (u ''SHA-256'')),
                (u ''payload_format'', PStr (u ''timestamp|prev_hash|actor_id|data_text''))])]"

text \<open>
  \<open>export_ledger_proof\<close> returns the proof dictionary with its \<open>proof_hash\<close> added as
  the last item.
\<close>

definition export_ledger_proof ::
  "datetime \<Rightarrow> pystr option \<Rightarrow> pystr option \<Rightarrow> ledger list \<Rightarrow> py_error + (pystr \<times> pyval) list" where
  "export_ledger_proof now start_date end_date table =
     (let entries = filter (in_range start_date end_date) (order_by_id_asc table);
          proof = proof_items now start_date end_date entries
      in case json_dumps (PDict proof) of
           Inl e \<Rightarrow> Inl e
         | Inr proof_json \<Rightarrow>
             (case sha256_hex_of_str proof_json of
                Inl e \<Rightarrow> Inl e
              | Inr h \<Rightarrow> Inr (proof @ [(u ''proof_hash'', PStr h)])))"

definition proof_hash :: "py_error + (pystr \<times> pyval) list \<Rightarrow> pyval option" where
  "proof_hash r = (case r of Inl e \<Rightarrow> None | Inr proof \<Rightarrow> map_of proof (u ''proof_hash''))"

section \<open>Auxiliary notions and sample inputs\<close>

definition is_ascii :: "pystr \<Rightarrow> bool" where
  "is_ascii s = list_all (\<lambda>c. c < 128) s"

text \<open>A payload contains a value that the encoder has no rule for.\<close>

fun unsupported :: "pyval \<Rightarrow> bool"
  and unsupported_list :: "pyval list \<Rightarrow> bool"
  and unsupported_items :: "(pystr \<times> pyval) list \<Rightarrow> bool" where
  "unsupported PObject = True"
| "unsupported (PList vs) = unsupported_list vs"
| "unsupported (PDict kvs) = unsupported_items kvs"
| "unsupported PNone = False"
| "unsupported (PBool b) = False"
| "unsupported (PInt i) = False"
| "unsupported (PFloat f) = False"
| "unsupported (PStr s) = False"
| "unsupported_list [] = False"
| "unsupported_list (v # vs) = (unsupported v \<or> unsupported_list vs)"
| "unsupported_items [] = False"
| "unsupported_items ((k, v) # kvs) = (unsupported v \<or> unsupported_items kvs)"

definition noon :: datetime where
  "noon = \<lparr>year = 2024, month = 1, day = 2, hour = 12, minute = 0, second = 0,
           microsecond = 0\<rparr>"

definition fair_weather :: env where
  "fair_weather = \<lparr>utcnow = noon, read_ok = True, commit_ok = True\<rparr>"

definition scalar_row :: ledger where
  "scalar_row =
     \<lparr>ledger_id = 1, timestamp = u ''2024-01-01T00:00:00Z'', prev_hash = genesis,
      data_hash = replicate 64 97, actor_id = None, action_type = u ''expense'',
      data_text = u ''5''\<rparr>"

text \<open>Bits of a binary numeral, and a bit list cut or filled up to a width.\<close>

fun bits_num :: "num \<Rightarrow> bool list" where
  "bits_num num.One = [True]"
| "bits_num (num.Bit0 k) = False # bits_num k"
| "bits_num (num.Bit1 k) = True # bits_num k"

fun fit :: "nat \<Rightarrow> bool list \<Rightarrow> bool list" where
  "fit 0 bs = []"
| "fit (Suc w) [] = False # fit w []"
| "fit (Suc w) (b # bs) = b # fit w bs"

definition one_second_later :: datetime where
  "one_second_later = noon\<lparr>second := 1\<rparr>"

text \<open>The canonical text of an export of the empty table at \<open>noon\<close> and one second later.\<close>

definition empty_proof_text_noon :: pystr where
  "empty_proof_text_noon =
     [
      123, 34, 101, 110, 116, 114, 105, 101, 115, 34, 58, 91, 93, 44, 34, 101, 120, 112, 111,
      114, 116, 95, 116, 105, 109, 101, 115, 116, 97, 109, 112, 34, 58, 34, 50, 48, 50, 52, 45,
      48, 49, 45, 48, 50, 84, 49, 50, 58, 48, 48, 58, 48, 48, 90, 34, 44, 34, 102, 105, 108,
      116, 101, 114, 95, 101, 110, 100, 95, 100, 97, 116, 101, 34, 58, 110, 117, 108, 108, 44,
      34, 102, 105, 108, 116, 101, 114, 95, 115, 116, 97, 114, 116, 95, 100, 97, 116, 101, 34,
      58, 110, 117, 108, 108, 44, 34, 116, 111, 116, 97, 108, 95, 101, 110, 116, 114, 105, 101,
      115, 34, 58, 48, 44, 34, 118, 101, 114, 105, 102, 105, 99, 97, 116, 105, 111, 110, 95,
      105, 110, 102, 111, 34, 58, 123, 34, 104, 97, 115, 104, 95, 97, 108, 103, 111, 114, 105,
      116, 104, 109, 34, 58, 34, 83, 72, 65, 45, 50, 53, 54, 34, 44, 34, 112, 97, 121, 108,
      111, 97, 100, 95, 102, 111, 114, 109, 97, 116, 34, 58, 34, 116, 105, 109, 101, 115, 116,
      97, 109, 112, 124, 112, 114, 101, 118, 95, 104, 97, 115, 104, 124, 97, 99, 116, 111, 114,
      95, 105, 100, 124, 100, 97, 116, 97, 95, 116, 101, 120, 116, 34, 125, 125]"

definition empty_proof_text_later :: pystr where
  "empty_proof_text_later =
     [
      123, 34, 101, 110, 116, 114, 105, 101, 115, 34, 58, 91, 93, 44, 34, 101, 120, 112, 111,
      114, 116, 95, 116, 105, 109, 101, 115, 116, 97, 109, 112, 34, 58, 34, 50, 48, 50, 52, 45,
      48, 49, 45, 48, 50, 84, 49, 50, 58, 48, 48, 58, 48, 49, 90, 34, 44, 34, 102, 105, 108,
      116, 101, 114, 95, 101, 110, 100, 95, 100, 97, 116, 101, 34, 58, 110, 117, 108, 108, 44,
      34, 102, 105, 108, 116, 101, 114, 95, 115, 116, 97, 114, 116, 95, 100, 97, 116, 101, 34,
      58, 110, 117, 108, 108, 44, 34, 116, 111, 116, 97, 108, 95, 101, 110, 116, 114, 105, 101,
      115, 34, 58, 48, 44, 34, 118, 101, 114, 105, 102, 105, 99, 97, 116, 105, 111, 110, 95,
      105, 110, 102, 111, 34, 58, 123, 34, 104, 97, 115, 104, 95, 97, 108, 103, 111, 114, 105,
      116, 104, 109, 34, 58, 34, 83, 72, 65, 45, 50, 53, 54, 34, 44, 34, 112, 97, 121, 108,
      111, 97, 100, 95, 102, 111, 114, 109, 97, 116, 34, 58, 34, 116, 105, 109, 101, 115, 116,
      97, 109, 112, 124, 112, 114, 101, 118, 95, 104, 97, 115, 104, 124, 97, 99, 116, 111, 114,
      95, 105, 100, 124, 100, 97, 116, 97, 95, 116, 101, 120, 116, 34, 125, 125]"

text \<open>The digest that the next append will chain to.\<close>

definition chain_head :: "ledger list \<Rightarrow> pystr" where
  "chain_head table = (case order_by_id_desc table of [] \<Rightarrow> genesis | r # rest \<Rightarrow> data_hash r)"

definition hexchars :: string where
  "hexchars = ''0123456789abcdef''"

definition lower_hex :: "pystr \<Rightarrow> bool" where
  "lower_hex s = list_all (\<lambda>c. c \<in> set (u hexchars)) s"

text \<open>The envelope text of an expense whose amount is NaN, stamped at \<open>noon\<close>.\<close>

definition nan_envelope_text :: pystr where
  "nan_envelope_text =
     [
      123, 34, 97, 99, 116, 105, 111, 110, 95, 116, 121, 112, 101, 34, 58, 34, 101, 120, 112,
      101, 110, 115, 101, 34, 44, 34, 104, 117, 109, 97, 110, 95, 109, 101, 115, 115, 97, 103,
      101, 34, 58, 34, 34, 44, 34, 112, 97, 121, 108, 111, 97, 100, 34, 58, 123, 34, 97, 109,
      111, 117, 110, 116, 34, 58, 78, 97, 78, 125, 44, 34, 116, 105, 109, 101, 115, 116, 97,
      109, 112, 34, 58, 34, 50, 48, 50, 52, 45, 48, 49, 45, 48, 50, 84, 49, 50, 58, 48, 48, 58,
      48, 48, 90, 34, 125]"

definition nan_digest :: pystr where
  "nan_digest =
     u (sha256_hexdigest (u ''2024-01-02T12:00:00Z'' @ u ''|'' @ genesis @ u ''|'' @ u ''|''
          @ nan_envelope_text))"

text \<open>The tables that successive appends build from the empty table.\<close>

inductive appended :: "ledger list \<Rightarrow> bool" where
  appended_empty: "appended []"
| appended_step:
    "appended table \<Longrightarrow> add_ledger_entry e actor action d hm table = (Inr h, table') \<Longrightarrow>
     appended table'"

text \<open>
  The hash input of the specification for one stored row: timestamp, previous digest,
  actor reference (empty when absent or zero) and envelope text, joined by bars.
\<close>

definition spec_hash_input :: "ledger \<Rightarrow> pystr" where
  "spec_hash_input r =
     timestamp r @ u ''|'' @ prev_hash r @ u ''|''
       @ (case actor_id r of None \<Rightarrow> [] | Some n \<Rightarrow> if n = 0 then [] else str_int n)
       @ u ''|'' @ data_text r"

text \<open>
  A test vector: the bytes of \<open>2024-01-02T12:00:00Z|0...0|42|\<close> followed by an
  envelope text of three code points, the middle one U+20B1.
\<close>

definition vector_bytes :: "byte list" where
  "vector_bytes =
     [50, 48, 50, 52, 45, 48, 49, 45, 48, 50, 84, 49, 50, 58, 48, 48, 58, 48, 48, 90, 124]
       @ replicate 64 48 @ [124, 52, 50, 124, 123, 226, 130, 177, 125]"

text \<open>The row that the append of the NaN expense stores in the empty table.\<close>

definition nan_row :: ledger where
  "nan_row =
     \<lparr>ledger_id = 1, timestamp = u ''2024-01-02T12:00:00Z'', prev_hash = genesis,
      data_hash = nan_digest, actor_id = None, action_type = u ''expense'',
      data_text = nan_envelope_text\<rparr>"

section \<open>Properties\<close>

text \<open>
  C10. Actor reference 0 and an absent actor reference give the same digest.
\<close>

theorem create_data_hash_zero_actor:
  "create_data_hash t p (Some 0) d = create_data_hash t p None d"
  by (simp add: create_data_hash_def)

subsection \<open>Hashing text that is ASCII\<close>

lemma is_ascii_simps [simp]:
  "is_ascii []"
  "is_ascii (c # cs) = (c < 128 \<and> is_ascii cs)"
  "is_ascii (xs @ ys) = (is_ascii xs \<and> is_ascii ys)"
  by (auto simp: is_ascii_def)

lemma is_ascii_replicate [simp]: "is_ascii (replicate n c) = (n = 0 \<or> c < 128)"
  by (induction n) auto

lemma encode_utf8_ascii: "is_ascii s \<Longrightarrow> encode_utf8 s = Inr s"
  by (induction s) (auto simp: utf8_char_def)

lemma sha256_hex_of_str_ascii:
  "is_ascii s \<Longrightarrow> sha256_hex_of_str s = Inr (u (sha256_hexdigest s))"
  by (simp add: sha256_hex_of_str_def encode_utf8_ascii)

lemmas json_eval = json_loads_def u_def skip_ws_def is_ws_def starts_with_def scan_number_def
  scan_int_def scan_frac_def scan_exp_def scan_digits1_def is_digit_def hexval4_def hexval_def
  backslash_def push_char_def

lemma hexdigit_in_hexchars: "hexdigit n \<in> set hexchars"
  unfolding hexdigit_def hexchars_def by (rule nth_mem) simp

lemma hex_of_bits_chars: "c \<in> set (hex_of_bits bs) \<Longrightarrow> c \<in> set hexchars"
  by (induction bs arbitrary: c rule: hex_of_bits.induct) (use hexdigit_in_hexchars in auto)

lemma sha256_hexdigest_chars: "c \<in> set (sha256_hexdigest m) \<Longrightarrow> c \<in> set hexchars"
  by (auto simp: sha256_hexdigest_def hex32_def dest: hex_of_bits_chars)

lemma lower_hex_hexdigest: "lower_hex (u (sha256_hexdigest m))"
  by (auto simp: lower_hex_def u_def list_all_iff dest: sha256_hexdigest_chars)

lemma hexchars_ascii: "c \<in> set (u hexchars) \<Longrightarrow> c < 128"
proof -
  have "list_all (\<lambda>c. c < 128) (u hexchars)"
    by (simp add: hexchars_def u_def)
  then show "c \<in> set (u hexchars) \<Longrightarrow> c < 128"
    by (simp add: list_all_iff)
qed

lemma lower_hex_ascii: "lower_hex s \<Longrightarrow> is_ascii s"
  by (auto simp: lower_hex_def is_ascii_def list_all_iff dest: hexchars_ascii)

lemma is_ascii_hexdigest [simp]: "is_ascii (u (sha256_hexdigest m))"
  by (rule lower_hex_ascii [OF lower_hex_hexdigest])

lemma bind_text_ascii: "is_ascii t \<Longrightarrow> bind_text t = None"
  by (simp add: bind_text_def encode_utf8_ascii)

lemma bind_row_ascii:
  "is_ascii (timestamp p) \<Longrightarrow> is_ascii (prev_hash p) \<Longrightarrow> is_ascii (data_hash p) \<Longrightarrow>
   is_ascii (action_type p) \<Longrightarrow> is_ascii (data_text p) \<Longrightarrow>
   bind_row p = bind_int (actor_id p)"
  by (cases "bind_int (actor_id p)") (simp_all add: bind_row_def bind_text_ascii)

subsection \<open>A failed append\<close>

lemma append_body_error_session:
  "append_body e a act d hm table s = Inl (err, s') \<Longrightarrow> committed s' = committed s"
  by (auto simp add: append_body_def Let_def session_add_def split: sum.splits)

lemma get_last_hash_ok: "get_last_hash True table = Inr (chain_head table)"
  by (simp add: get_last_hash_def chain_head_def split: list.splits)

lemma add_ledger_entry_outcome:
  "add_ledger_entry e actor action d hm table =
     (if \<not> read_ok e then (Inl OperationalError, table)
      else case json_dumps (ledger_data action d hm (isoformat (utcnow e) @ u ''Z'')) of
        Inl x \<Rightarrow> (Inl x, table)
      | Inr text \<Rightarrow>
          (case create_data_hash (isoformat (utcnow e) @ u ''Z'') (chain_head table) actor text of
             Inl x \<Rightarrow> (Inl x, table)
           | Inr h \<Rightarrow>
               if \<not> commit_ok e then (Inl OperationalError, table)
               else (case bind_row \<lparr>ledger_id = 0, timestamp = isoformat (utcnow e) @ u ''Z'',
                                     prev_hash = chain_head table, data_hash = h, actor_id = actor,
                                     action_type = action, data_text = text\<rparr> of
                       Some x \<Rightarrow> (Inl x, table)
                     | None \<Rightarrow>
                         if h \<in> set (map data_hash table) then (Inl IntegrityError, table)
                         else (Inr h, table @
                                 [\<lparr>ledger_id = next_id table,
                                   timestamp = isoformat (utcnow e) @ u ''Z'',
                                   prev_hash = chain_head table, data_hash = h, actor_id = actor,
                                   action_type = action, data_text = text\<rparr>]))))"
proof (cases "read_ok e")
  case False
  then show ?thesis
    by (simp add: add_ledger_entry_def append_body_def get_last_hash_def get_session_def
          session_rollback_def session_close_def)
next
  case True
  then show ?thesis
    by (simp add: add_ledger_entry_def append_body_def get_last_hash_ok get_session_def
          session_rollback_def session_close_def session_add_def session_commit_def Let_def
        split: sum.splits option.splits)
qed

subsection \<open>The verifier on a stored scalar\<close>

lemma json_loads_five: "json_loads (u ''5'') = Decoded (JNum (u ''5''))"
  by (simp add: json_eval)

lemma scalar_row_hashes:
  "\<exists>h. create_data_hash (timestamp scalar_row) (prev_hash scalar_row) (actor_id scalar_row)
         (data_text scalar_row) = Inr h"
  by (simp add: create_data_hash_def sha256_hex_of_str_ascii genesis_def u_def scalar_row_def)

text \<open>
  C4. On a table whose only row stores the envelope text \<open>5\<close>, which is valid JSON but
  no dictionary, the membership test of the structure check raises \<open>TypeError\<close>; the
  exception is not caught and \<open>verify_ledger\<close> returns no list of discrepancies.
\<close>

theorem verify_ledger_raises_on_scalar: "verify_ledger [scalar_row] = Inl TypeError"
proof -
  obtain h where h:
    "create_data_hash (timestamp scalar_row) (prev_hash scalar_row) (actor_id scalar_row)
       (data_text scalar_row) = Inr h"
    using scalar_row_hashes by blast
  have c: "check_json scalar_row = Inl TypeError"
    by (simp add: check_json_def scalar_row_def json_loads_five)
  have "check_entry genesis scalar_row = Inl TypeError"
    unfolding check_entry_def Let_def c using h by simp
  then show ?thesis
    by (simp add: verify_ledger_def order_by_id_asc_def)
qed

subsection \<open>Appends that fail and appends that do not\<close>

lemmas clock_eval = isoformat_def noon_def zero_pad_def str_nat_def digits10.simps hexdigit_def

lemmas dumps_eval = ledger_data_def encode_basestring_ascii_def escape_char_def

lemma iso_noon: "isoformat noon @ u ''Z'' = u ''2024-01-02T12:00:00Z''"
  by (simp add: clock_eval u_def)

lemma dumps_error_type:
  "json_dumps v = Inl e \<Longrightarrow> e = TypeError"
  "dumps_list vs = Inl e \<Longrightarrow> e = TypeError"
  "dumps_items kvs = Inl e \<Longrightarrow> e = TypeError"
  by (induction v and vs and kvs arbitrary: e and e and e
        rule: json_dumps_dumps_list_dumps_items.induct)
     (auto split: sum.splits)

lemma unsupported_dumps:
  "unsupported v \<longleftrightarrow> json_dumps v = Inl TypeError"
  "unsupported_list vs \<longleftrightarrow> dumps_list vs = Inl TypeError"
  "unsupported_items kvs \<longleftrightarrow> dumps_items kvs = Inl TypeError"
  by (induction v and vs and kvs rule: json_dumps_dumps_list_dumps_items.induct)
     (auto split: sum.splits dest: dumps_error_type)

lemma envelope_unsupported:
  "unsupported d \<Longrightarrow> json_dumps (ledger_data act d hm ts) = Inl TypeError"
  by (simp add: ledger_data_def unsupported_dumps)

text \<open>
  C7, as the code has it.  A payload that contains a value without an encoding rule makes
  \<open>json.dumps\<close> raise \<open>TypeError\<close>; the append fails and the table is unchanged.
\<close>

theorem unsupported_payload_rejected:
  "unsupported d \<Longrightarrow>
   add_ledger_entry e actor act d hm table =
     (Inl (if read_ok e then TypeError else OperationalError), table)"
  by (simp add: add_ledger_entry_def append_body_def get_last_hash_def envelope_unsupported
        Let_def get_session_def session_rollback_def session_close_def
      split: list.splits)

text \<open>An instance: a payload with a list that holds an unsupported object.\<close>

theorem unsupported_payload_rejected_witness:
  "unsupported (PDict [(u ''tags'', PList [PObject])]) \<and>
   add_ledger_entry fair_weather (Some 7) (u ''expense'') (PDict [(u ''tags'', PList [PObject])])
       (u ''lunch'') [scalar_row] =
     (Inl TypeError, [scalar_row])"
  using unsupported_payload_rejected [of "PDict [(u ''tags'', PList [PObject])]" fair_weather
      "Some 7" "u ''expense''" "u ''lunch''" "[scalar_row]"]
  by (simp add: fair_weather_def)

lemma nan_envelope:
  "json_dumps (ledger_data (u ''expense'') (PDict [(u ''amount'', PFloat FNan)]) []
     (u ''2024-01-02T12:00:00Z'')) = Inr nan_envelope_text"
  by (simp add: dumps_eval u_def nan_envelope_text_def)

lemma nan_envelope_ascii: "is_ascii nan_envelope_text"
  by (simp add: nan_envelope_text_def)

lemma nan_envelope_tail:
  "is_substring (u ''amount'' @ [34] @ u '':NaN}'') nan_envelope_text"
  by (simp add: nan_envelope_text_def u_def starts_with_def)

lemma nan_hash:
  "create_data_hash (u ''2024-01-02T12:00:00Z'') genesis None nan_envelope_text = Inr nan_digest"
  by (simp add: create_data_hash_def sha256_hex_of_str_ascii nan_envelope_ascii genesis_def
        u_def nan_digest_def)

lemma nan_bind:
  "bind_row \<lparr>ledger_id = 0, timestamp = u ''2024-01-02T12:00:00Z'', prev_hash = genesis,
      data_hash = nan_digest, actor_id = None, action_type = u ''expense'',
      data_text = nan_envelope_text\<rparr> = None"
  by (simp add: bind_row_ascii nan_envelope_ascii genesis_def bind_int_def u_def nan_digest_def
        is_ascii_hexdigest [unfolded u_def])

lemma chain_head_empty: "chain_head [] = genesis"
  by (simp add: chain_head_def order_by_id_desc_def)

lemma nan_append:
  "add_ledger_entry fair_weather None (u ''expense'') (PDict [(u ''amount'', PFloat FNan)]) [] [] =
     (Inr nan_digest,
      [\<lparr>ledger_id = 1, timestamp = u ''2024-01-02T12:00:00Z'', prev_hash = genesis,
         data_hash = nan_digest, actor_id = None, action_type = u ''expense'',
         data_text = nan_envelope_text\<rparr>])"
  unfolding add_ledger_entry_outcome
  by (simp add: fair_weather_def iso_noon nan_envelope chain_head_empty nan_hash nan_bind
        next_id_def)

text \<open>
  C7 as stated fails for a payload holding a NaN float: \<open>json.dumps\<close> allows it by
  default and writes the token \<open>NaN\<close>, and the entry is appended.
\<close>

theorem nan_payload_appended:
  "\<not> isl (fst (add_ledger_entry fair_weather None (u ''expense'')
                (PDict [(u ''amount'', PFloat FNan)]) [] [])) \<and>
   map (\<lambda>r. is_substring (u ''amount'' @ [34] @ u '':NaN}'') (data_text r))
     (snd (add_ledger_entry fair_weather None (u ''expense'')
             (PDict [(u ''amount'', PFloat FNan)]) [] [])) = [True]"
  using nan_envelope_tail by (simp add: nan_append)

subsection \<open>Evaluating SHA-256\<close>

lemma bits_of_0: "bits_of w 0 = fit w []"
  by (induction w) auto

lemma bits_of_numeral: "bits_of w (numeral k) = fit w (bits_num k)"
proof (induction k arbitrary: w)
  case One
  then show ?case by (cases w) (auto simp: bits_of_0)
next
  case (Bit0 k)
  then show ?case by (cases w) auto
next
  case (Bit1 k)
  then show ?case by (cases w) auto
qed

lemma bits_of_1: "bits_of w 1 = fit w [True]" "bits_of w (Suc 0) = fit w [True]"
  using bits_of_numeral [of w num.One] by simp_all

lemma fit_numeral: "fit (numeral k) bs = fit (Suc (pred_numeral k)) bs"
  by (simp only: numeral_eq_Suc)

lemma numeral_steps:
  "drop (numeral k) xs = drop (Suc (pred_numeral k)) xs"
  "take (numeral k) xs = take (Suc (pred_numeral k)) xs"
  "replicate (numeral k) x = replicate (Suc (pred_numeral k)) x"
  by (simp_all only: numeral_eq_Suc)

lemma sha_blocks_Nil: "sha_blocks s [] = s"
  by (simp add: sha_blocks.simps)

lemma sha_blocks_Cons:
  "sha_blocks s (b # bs) = sha_blocks (compress s (take 64 (b # bs))) (drop 64 (b # bs))"
  by (subst sha_blocks.simps) simp

lemmas sha_eval = bxor3.simps bmaj.simps xor3.simps Ch.simps Maj.simps add_carry.simps add32_def
  rotr_def shr_def bsig0_def bsig1_def ssig0_def ssig1_def next_w.simps sha_round.simps
  sha_t1.simps sha_t2.simps sha_rounds.simps add_all.simps compress_def be32.simps
  sha_blocks_Nil sha_blocks_Cons byte_bits_def word_bits_def bits_of_numeral bits_of_0 bits_of_1
  bits_num.simps fit.simps fit_numeral K256_def H256_def
  numeral_steps pred_numeral_simps BitM.simps drop_Suc_Cons take_Suc_Cons drop_0 take_0
  drop.simps(1) take.simps(1)
  replicate_Suc replicate_0 append_Cons append_Nil list.sel list.map if_True if_False
  not_True_eq_False not_False_eq_True list.distinct

lemmas hex_eval = hex32_def hexdigit_def

text \<open>The test vector of the standard: the digest of the three bytes \<open>abc\<close>.\<close>

lemma sha256_abc:
  "sha256_hexdigest [97, 98, 99] =
     ''ba7816bf8f01cfea414140de5dae2223b00361a396177a9cb410ff61f20015ad''"
  apply (simp add: sha256_hexdigest_def pad_def be64_def)
  apply (simp only: sha_eval)
  apply (simp add: hex_eval)
  done

subsection \<open>A failed append is reported and leaves nothing behind\<close>

text \<open>
  C6. A call that fails returns the exception to the caller and leaves the stored table
  as it was: this holds for a refused read, for an envelope that cannot be encoded and
  for a refused commit.  A call that reports a digest has read and committed, and the
  table has exactly one more row, which carries that digest.
\<close>

theorem add_ledger_entry_failure_atomic:
  "(fst (add_ledger_entry e actor action d hm table) = Inl err \<longrightarrow>
      snd (add_ledger_entry e actor action d hm table) = table) \<and>
   (\<not> read_ok e \<longrightarrow>
      add_ledger_entry e actor action d hm table = (Inl OperationalError, table)) \<and>
   (read_ok e \<longrightarrow>
      json_dumps (ledger_data action d hm (isoformat (utcnow e) @ u ''Z'')) = Inl x \<longrightarrow>
      add_ledger_entry e actor action d hm table = (Inl x, table)) \<and>
   (\<not> commit_ok e \<longrightarrow>
      isl (fst (add_ledger_entry e actor action d hm table)) \<and>
      snd (add_ledger_entry e actor action d hm table) = table) \<and>
   (fst (add_ledger_entry e actor action d hm table) = Inr h \<longrightarrow>
      read_ok e \<and> commit_ok e \<and>
      (\<exists>row. snd (add_ledger_entry e actor action d hm table) = table @ [row] \<and>
             data_hash row = h))"
  unfolding add_ledger_entry_outcome
  by (auto split: sum.splits option.splits)

text \<open>
  Instances of C6 on a table of one row: the read is refused, the commit is refused, the
  payload cannot be encoded; and an append to the empty table that succeeds.
\<close>

theorem add_ledger_entry_failure_atomic_witness:
  "add_ledger_entry (fair_weather\<lparr>read_ok := False\<rparr>) None (u ''expense'') (PDict []) []
       [scalar_row] = (Inl OperationalError, [scalar_row]) \<and>
   isl (fst (add_ledger_entry (fair_weather\<lparr>commit_ok := False\<rparr>) None (u ''expense'')
               (PDict []) [] [scalar_row])) \<and>
   snd (add_ledger_entry (fair_weather\<lparr>commit_ok := False\<rparr>) None (u ''expense'')
          (PDict []) [] [scalar_row]) = [scalar_row] \<and>
   add_ledger_entry fair_weather None (u ''expense'') PObject [] [scalar_row] =
     (Inl TypeError, [scalar_row]) \<and>
   (\<exists>row. snd (add_ledger_entry fair_weather None (u ''expense'')
                  (PDict [(u ''amount'', PFloat FNan)]) [] []) = [row] \<and>
          data_hash row = nan_digest)"
proof -
  note a = add_ledger_entry_failure_atomic
             [of "fair_weather\<lparr>read_ok := False\<rparr>" None "u ''expense''" "PDict []" "[]"
                 "[scalar_row]"]
  note b = add_ledger_entry_failure_atomic
             [of "fair_weather\<lparr>commit_ok := False\<rparr>" None "u ''expense''" "PDict []" "[]"
                 "[scalar_row]"]
  note c = add_ledger_entry_failure_atomic
             [of fair_weather None "u ''expense''" PObject "[]" "[scalar_row]" _ TypeError]
  note d = add_ledger_entry_failure_atomic
             [of fair_weather None "u ''expense''" "PDict [(u ''amount'', PFloat FNan)]" "[]"
                 "[]" _ _ nan_digest]
  have 1: "add_ledger_entry (fair_weather\<lparr>read_ok := False\<rparr>) None (u ''expense'') (PDict [])
             [] [scalar_row] = (Inl OperationalError, [scalar_row])"
    using a by (simp add: fair_weather_def)
  have 2: "isl (fst (add_ledger_entry (fair_weather\<lparr>commit_ok := False\<rparr>) None
                       (u ''expense'') (PDict []) [] [scalar_row])) \<and>
           snd (add_ledger_entry (fair_weather\<lparr>commit_ok := False\<rparr>) None (u ''expense'')
                  (PDict []) [] [scalar_row]) = [scalar_row]"
    using b by (simp add: fair_weather_def)
  have 3: "add_ledger_entry fair_weather None (u ''expense'') PObject [] [scalar_row] =
             (Inl TypeError, [scalar_row])"
    using c by (simp add: fair_weather_def envelope_unsupported)
  have 4: "\<exists>row. snd (add_ledger_entry fair_weather None (u ''expense'')
                        (PDict [(u ''amount'', PFloat FNan)]) [] []) = [row] \<and>
                data_hash row = nan_digest"
    using d by (simp add: nan_append)
  from 1 2 3 4 show ?thesis by blast
qed

subsection \<open>The digest of a stored entry\<close>

lemma actor_or_empty_spec:
  "actor_or_empty a = (case a of None \<Rightarrow> [] | Some n \<Rightarrow> if n = 0 then [] else str_int n)"
  by (cases a) simp_all

lemma create_data_hash_Inr:
  "create_data_hash ts prev a txt = Inr h \<Longrightarrow>
   \<exists>bytes. encode_utf8 (ts @ u ''|'' @ prev @ u ''|''
              @ (case a of None \<Rightarrow> [] | Some n \<Rightarrow> if n = 0 then [] else str_int n)
              @ u ''|'' @ txt) = Inr bytes \<and> h = u (sha256_hexdigest bytes)"
  by (auto simp: create_data_hash_def sha256_hex_of_str_def actor_or_empty_spec split: sum.splits)

lemma appended_row_digest:
  "appended table \<Longrightarrow> r \<in> set table \<Longrightarrow>
   \<exists>bytes. encode_utf8 (spec_hash_input r) = Inr bytes \<and> data_hash r = u (sha256_hexdigest bytes)"
proof (induction rule: appended.induct)
  case appended_empty
  then show ?case by simp
next
  case (appended_step table e actor action d hm h table')
  from appended_step.hyps(2) appended_step.prems appended_step.IH show ?case
    unfolding add_ledger_entry_outcome
    by (auto simp: spec_hash_input_def split: if_splits sum.splits option.splits
        dest!: create_data_hash_Inr)
qed

lemma encode_utf8_ascii_append:
  "is_ascii a \<Longrightarrow>
   encode_utf8 (a @ b) = (case encode_utf8 b of Inl x \<Rightarrow> Inl x | Inr r \<Rightarrow> Inr (a @ r))"
  by (induction a) (auto simp: utf8_char_def split: sum.splits)

lemma vector_encoding:
  "encode_utf8 (u ''2024-01-02T12:00:00Z'' @ u ''|'' @ genesis @ u ''|'' @ str_int 42 @ u ''|''
      @ [123, 8369, 125]) = Inr vector_bytes"
  by (simp add: u_def genesis_def str_int_def str_nat_def digits10.simps hexdigit_def
        encode_utf8_ascii_append utf8_char_def vector_bytes_def)

lemma vector_digest:
  "sha256_hexdigest vector_bytes =
     ''6ec7ef4bb7deb5f3aa05186ecd57d46729908c7316343a6332ff277fe25297b6''"
  apply (simp add: sha256_hexdigest_def pad_def be64_def vector_bytes_def)
  apply (simp only: sha_eval)
  apply (simp add: hex_eval)
  done

lemma appended_nan_row: "appended [nan_row]"
  using appended_step [OF appended_empty nan_append] by (simp add: nan_row_def)

text \<open>
  C1. Every entry that appends have stored carries as digest the lowercase hexadecimal
  SHA-256 of the UTF-8 bytes of its timestamp, previous digest, actor reference (empty
  when absent) and envelope text, joined by bars, and \<open>create_data_hash\<close> computes that
  digest from the stored fields.  At a test vector with actor 42 and a three-byte code
  point the digest is the one that SHA-256 prescribes.
\<close>

theorem stored_digest_is_sha256:
  "(appended table \<longrightarrow> r \<in> set table \<longrightarrow>
      (\<exists>bytes. encode_utf8 (spec_hash_input r) = Inr bytes \<and>
               data_hash r = u (sha256_hexdigest bytes) \<and>
               lower_hex (data_hash r) \<and>
               create_data_hash (timestamp r) (prev_hash r) (actor_id r) (data_text r) =
                 Inr (data_hash r))) \<and>
   create_data_hash (u ''2024-01-02T12:00:00Z'') genesis (Some 42) [123, 8369, 125] =
     Inr (u ''6ec7ef4bb7deb5f3aa05186ecd57d46729908c7316343a6332ff277fe25297b6'') \<and>
   (create_data_hash ts prev a txt = Inr h \<longleftrightarrow>
      (\<exists>bytes. encode_utf8 (ts @ u ''|'' @ prev @ u ''|''
                 @ (case a of None \<Rightarrow> [] | Some n \<Rightarrow> if n = 0 then [] else str_int n)
                 @ u ''|'' @ txt) = Inr bytes \<and>
               h = u (sha256_hexdigest bytes)))"
proof (intro conjI impI)
  assume "appended table" and "r \<in> set table"
  then obtain bytes where b: "encode_utf8 (spec_hash_input r) = Inr bytes"
      "data_hash r = u (sha256_hexdigest bytes)"
    using appended_row_digest by blast
  have "create_data_hash (timestamp r) (prev_hash r) (actor_id r) (data_text r) =
          Inr (data_hash r)"
    using b by (simp add: create_data_hash_def sha256_hex_of_str_def actor_or_empty_spec
        spec_hash_input_def)
  with b show "\<exists>bytes. encode_utf8 (spec_hash_input r) = Inr bytes \<and>
      data_hash r = u (sha256_hexdigest bytes) \<and> lower_hex (data_hash r) \<and>
      create_data_hash (timestamp r) (prev_hash r) (actor_id r) (data_text r) =
        Inr (data_hash r)"
    using lower_hex_hexdigest by auto
next
  show "create_data_hash (u ''2024-01-02T12:00:00Z'') genesis (Some 42) [123, 8369, 125] =
          Inr (u ''6ec7ef4bb7deb5f3aa05186ecd57d46729908c7316343a6332ff277fe25297b6'')"
    using vector_encoding
    by (simp add: create_data_hash_def sha256_hex_of_str_def vector_digest)
next
  show "create_data_hash ts prev a txt = Inr h \<longleftrightarrow>
      (\<exists>bytes. encode_utf8 (ts @ u ''|'' @ prev @ u ''|''
                 @ (case a of None \<Rightarrow> [] | Some n \<Rightarrow> if n = 0 then [] else str_int n)
                 @ u ''|'' @ txt) = Inr bytes \<and>
               h = u (sha256_hexdigest bytes))"
    by (auto simp: create_data_hash_def sha256_hex_of_str_def actor_or_empty_spec
        split: sum.splits)
qed

text \<open>An instance of C1: the one row of the table that the append of the NaN expense built.\<close>

theorem stored_digest_is_sha256_witness:
  "appended [nan_row] \<and> nan_row \<in> set [nan_row] \<and>
   (\<exists>bytes. encode_utf8 (spec_hash_input nan_row) = Inr bytes \<and>
            data_hash nan_row = u (sha256_hexdigest bytes) \<and>
            lower_hex (data_hash nan_row) \<and>
            create_data_hash (timestamp nan_row) (prev_hash nan_row) (actor_id nan_row)
              (data_text nan_row) = Inr (data_hash nan_row))"
proof -
  have m: "nan_row \<in> set [nan_row]" by simp
  from stored_digest_is_sha256 [of "[nan_row]" nan_row, THEN conjunct1, rule_format,
      OF appended_nan_row m] appended_nan_row m
  show ?thesis by blast
qed

subsection \<open>Two exports of an unchanged table\<close>

lemma digest_empty_proof_noon:
  "sha256_hexdigest empty_proof_text_noon =
     ''67d1a7ca767ec4e5f2c2cb44d8fe2dde2eea116392bbb168f3c416d1b06f7286''"
  apply (simp add: sha256_hexdigest_def pad_def be64_def empty_proof_text_noon_def)
  apply (simp only: sha_eval)
  apply (simp add: hex_eval)
  done

lemma digest_empty_proof_later:
  "sha256_hexdigest empty_proof_text_later =
     ''0a6ef954692300405ed890877451d40b4de13ed26e2f7568a5ef1db28ea7caf2''"
  apply (simp add: sha256_hexdigest_def pad_def be64_def empty_proof_text_later_def)
  apply (simp only: sha_eval)
  apply (simp add: hex_eval)
  done

lemma iso_values:
  "isoformat noon = u ''2024-01-02T12:00:00''"
  "isoformat one_second_later = u ''2024-01-02T12:00:01''"
  by (simp_all add: clock_eval one_second_later_def u_def)

lemma export_empty_noon:
  "json_dumps (PDict (proof_items noon None None [])) = Inr empty_proof_text_noon"
  by (simp add: proof_items_def iso_values py_opt_str_def dumps_eval u_def str_int_def str_nat_def
        digits10.simps hexdigit_def empty_proof_text_noon_def)

lemma export_empty_later:
  "json_dumps (PDict (proof_items one_second_later None None [])) = Inr empty_proof_text_later"
  by (simp add: proof_items_def iso_values py_opt_str_def dumps_eval u_def str_int_def str_nat_def
        digits10.simps hexdigit_def empty_proof_text_later_def)

lemma is_ascii_empty_proof_texts:
  "is_ascii empty_proof_text_noon" "is_ascii empty_proof_text_later"
  by (simp_all add: empty_proof_text_noon_def empty_proof_text_later_def)

lemma no_rows_in_range: "filter (in_range lo hi) (order_by_id_asc []) = []"
  by (simp add: order_by_id_asc_def)

lemma export_empty_noon_result:
  "export_ledger_proof noon None None [] =
     Inr (proof_items noon None None [] @
          [(u ''proof_hash'',
            PStr (u ''67d1a7ca767ec4e5f2c2cb44d8fe2dde2eea116392bbb168f3c416d1b06f7286''))])"
  unfolding export_ledger_proof_def Let_def no_rows_in_range export_empty_noon
  by (simp add: sha256_hex_of_str_ascii is_ascii_empty_proof_texts digest_empty_proof_noon)

lemma export_empty_later_result:
  "export_ledger_proof one_second_later None None [] =
     Inr (proof_items one_second_later None None [] @
          [(u ''proof_hash'',
            PStr (u ''0a6ef954692300405ed890877451d40b4de13ed26e2f7568a5ef1db28ea7caf2''))])"
  unfolding export_ledger_proof_def Let_def no_rows_in_range export_empty_later
  by (simp add: sha256_hex_of_str_ascii is_ascii_empty_proof_texts digest_empty_proof_later)

text \<open>
  C8 as stated fails: the export timestamp is part of the text that is hashed, so two
  exports of the same unchanged (here empty) table, one second apart, carry different
  proof hashes.
\<close>

theorem export_proof_hash_differs:
  "proof_hash (export_ledger_proof noon None None []) =
     Some (PStr (u ''67d1a7ca767ec4e5f2c2cb44d8fe2dde2eea116392bbb168f3c416d1b06f7286'')) \<and>
   proof_hash (export_ledger_proof one_second_later None None []) =
     Some (PStr (u ''0a6ef954692300405ed890877451d40b4de13ed26e2f7568a5ef1db28ea7caf2'')) \<and>
   proof_hash (export_ledger_proof noon None None []) \<noteq>
     proof_hash (export_ledger_proof one_second_later None None [])"
  by (simp add: export_empty_noon_result export_empty_later_result proof_hash_def
        proof_items_def map_add_def u_def)

lemma proof_items_clock:
  "isoformat now1 = isoformat now2 \<Longrightarrow>
   proof_items now1 lo hi entries = proof_items now2 lo hi entries"
  by (simp add: proof_items_def)

lemma export_items:
  "export_ledger_proof now lo hi table = Inr p \<Longrightarrow>
   \<exists>h. p = proof_items now lo hi (filter (in_range lo hi) (order_by_id_asc table))
            @ [(u ''proof_hash'', PStr h)]"
  by (auto simp: export_ledger_proof_def Let_def split: sum.splits)

lemma proof_items_other_keys:
  "k \<noteq> u ''export_timestamp'' \<Longrightarrow> k \<noteq> u ''proof_hash'' \<Longrightarrow>
   map_of (proof_items now1 lo hi entries @ [(u ''proof_hash'', v1)]) k =
   map_of (proof_items now2 lo hi entries @ [(u ''proof_hash'', v2)]) k"
  by (simp add: proof_items_def map_add_def)

text \<open>
  C8, as the code has it.  Two exports of the same range of an unchanged table are the
  same proof, proof hash included, when both calls read the same export timestamp; at
  any two clock readings they agree on every item other than \<open>export_timestamp\<close> and
  \<open>proof_hash\<close>.
\<close>

theorem export_repeatable_up_to_timestamp:
  "(isoformat now1 = isoformat now2 \<longrightarrow>
      export_ledger_proof now1 lo hi table = export_ledger_proof now2 lo hi table) \<and>
   (export_ledger_proof now1 lo hi table = Inr p1 \<longrightarrow>
    export_ledger_proof now2 lo hi table = Inr p2 \<longrightarrow>
    k \<noteq> u ''export_timestamp'' \<longrightarrow> k \<noteq> u ''proof_hash'' \<longrightarrow>
      map_of p1 k = map_of p2 k)"
proof (intro conjI impI)
  assume "isoformat now1 = isoformat now2"
  then show "export_ledger_proof now1 lo hi table = export_ledger_proof now2 lo hi table"
    by (simp add: export_ledger_proof_def Let_def proof_items_clock [of now1 now2])
next
  assume a: "export_ledger_proof now1 lo hi table = Inr p1"
    and b: "export_ledger_proof now2 lo hi table = Inr p2"
    and k: "k \<noteq> u ''export_timestamp''" "k \<noteq> u ''proof_hash''"
  from export_items [OF a] export_items [OF b] proof_items_other_keys [OF k]
  show "map_of p1 k = map_of p2 k" by auto
qed

text \<open>
  An instance: the exports of the empty table at \<open>noon\<close> and one second later agree on
  the number of entries, and an export repeated at \<open>noon\<close> is the same proof.
\<close>

theorem export_repeatable_up_to_timestamp_witness:
  "export_ledger_proof noon None None [] = export_ledger_proof noon None None [] \<and>
   export_ledger_proof noon None None [] =
     Inr (proof_items noon None None [] @ [(u ''proof_hash'', PStr (u ''67d1a7ca767ec4e5f2c2cb44d8fe2dde2eea116392bbb168f3c416d1b06f7286''))]) \<and>
   export_ledger_proof one_second_later None None [] =
     Inr (proof_items one_second_later None None [] @ [(u ''proof_hash'', PStr (u ''0a6ef954692300405ed890877451d40b4de13ed26e2f7568a5ef1db28ea7caf2''))]) \<and>
   u ''total_entries'' \<noteq> u ''export_timestamp'' \<and> u ''total_entries'' \<noteq> u ''proof_hash'' \<and>
   map_of (proof_items noon None None [] @ [(u ''proof_hash'', PStr (u ''67d1a7ca767ec4e5f2c2cb44d8fe2dde2eea116392bbb168f3c416d1b06f7286''))])
       (u ''total_entries'') =
     map_of (proof_items one_second_later None None []
               @ [(u ''proof_hash'', PStr (u ''0a6ef954692300405ed890877451d40b4de13ed26e2f7568a5ef1db28ea7caf2''))]) (u ''total_entries'')"
proof -
  have k: "u ''total_entries'' \<noteq> u ''export_timestamp''" "u ''total_entries'' \<noteq> u ''proof_hash''"
    by (simp_all add: u_def)
  note t1 = export_repeatable_up_to_timestamp [of noon noon None None "[]", THEN conjunct1]
  note t2 = export_repeatable_up_to_timestamp
              [of noon one_second_later None None "[]" _ _ "u ''total_entries''", THEN conjunct2,
               rule_format, OF export_empty_noon_result export_empty_later_result k]
  from t1 t2 k export_empty_noon_result export_empty_later_result show ?thesis by blast
qed

end
